theory Spec2Isabelle
  imports Main "HOL-Library.Multiset"
begin

section \<open>Python values and built-ins\<close>

text \<open>
  The Vercel client works on decoded JSON (\<^verbatim>\<open>Dict[str, Any]\<close>). A decoded JSON value is
  \<open>None\<close>, a bool, an int, a str, a list or a dict; a dict is kept as an association
  list in insertion order and looked up with \<open>map_of\<close>. Fractional JSON numbers (Python
  floats) are outside the model. A \<open>str\<close> is a byte string.
\<close>

datatype json =
    JNull
  | JBool bool
  | JInt int
  | JStr string
  | JList "json list"
  | JObj "(string \<times> json) list"

text \<open>The exceptions the modelled code can raise, by their Python class.\<close>

datatype error =
    AttributeError
  | TypeError
  | ValueError
  | OverflowError
  | OSError
  | PermissionError
  | HTTPError
  | ConnectionError
  | JSONDecodeError

text \<open>
  Built-ins whose results are not computed here are parameters of the model:
  \<^item> \<open>repr v\<close>: \<^verbatim>\<open>str(v)\<close> for a value that is not a \<open>str\<close>;
  \<^item> \<open>int_of_str s\<close>: \<^verbatim>\<open>int(s)\<close> for a \<open>str\<close>, \<open>None\<close> where it raises ValueError;
  \<^item> \<open>fromtimestamp n\<close>: \<^verbatim>\<open>datetime.fromtimestamp(n / 1000, tz=utc)\<close> for an int \<open>n\<close>,
    the datetime as a point of a linear order (microseconds since the epoch), or the
    exception it raises;
  \<^item> \<open>now i\<close>: what \<^verbatim>\<open>datetime.now(tz=utc)\<close> returns while item number \<open>i\<close> of a
    response is parsed;
  \<^item> \<open>strip s\<close>: \<^verbatim>\<open>s.strip()\<close>.
\<close>

record builtins =
  repr :: "json \<Rightarrow> string"
  int_of_str :: "string \<Rightarrow> int option"
  fromtimestamp :: "int \<Rightarrow> error + int"
  now :: "nat \<Rightarrow> int"
  strip :: "string \<Rightarrow> string"

text \<open>Python truthiness, \<^verbatim>\<open>a or b\<close>, \<^verbatim>\<open>d.get(k)\<close>, \<^verbatim>\<open>str(v)\<close>, \<^verbatim>\<open>int(v)\<close>.\<close>

fun truthy :: "json \<Rightarrow> bool" where
  "truthy JNull = False"
| "truthy (JBool b) = b"
| "truthy (JInt n) = (n \<noteq> 0)"
| "truthy (JStr s) = (s \<noteq> [])"
| "truthy (JList xs) = (xs \<noteq> [])"
| "truthy (JObj kvs) = (kvs \<noteq> [])"

definition py_or :: "json \<Rightarrow> json \<Rightarrow> json" where
  "py_or a b = (if truthy a then a else b)"

definition dict_get :: "(string \<times> json) list \<Rightarrow> string \<Rightarrow> json" where
  "dict_get kvs k = (case map_of kvs k of None \<Rightarrow> JNull | Some v \<Rightarrow> v)"

definition py_str :: "builtins \<Rightarrow> json \<Rightarrow> string" where
  "py_str B v = (case v of JStr s \<Rightarrow> s | _ \<Rightarrow> repr B v)"

definition py_int :: "builtins \<Rightarrow> json \<Rightarrow> error + int" where
  "py_int B v =
     (case v of
        JInt n \<Rightarrow> Inr n
      | JBool b \<Rightarrow> Inr (if b then 1 else 0)
      | JStr s \<Rightarrow> (case int_of_str B s of None \<Rightarrow> Inl ValueError | Some n \<Rightarrow> Inr n)
      | _ \<Rightarrow> Inl TypeError)"

text \<open>
  \<^verbatim>\<open>s.lower()\<close> on the bytes of \<open>s\<close>: A to Z become a to z. Python also lowers
  letters outside ASCII; none of them lowers to a string of the status table or to
  \<open>production\<close>, the only strings a lowered value is compared with.
\<close>

definition char_lower :: "char \<Rightarrow> char" where
  "char_lower c =
     (case map_of (zip ''ABCDEFGHIJKLMNOPQRSTUVWXYZ'' ''abcdefghijklmnopqrstuvwxyz'') c of
        None \<Rightarrow> c
      | Some l \<Rightarrow> l)"

definition str_lower :: "string \<Rightarrow> string" where
  "str_lower s = map char_lower s"

section \<open>api.py: the deployment record and its parser\<close>

record deployment =
  dep_id :: string
  name :: string
  url :: string
  status :: string
  created_at :: int
  branch :: string
  commit_sha :: string
  commit_message :: string
  author :: string
  target :: string

text \<open>Lines 85 to 97 of \<^verbatim>\<open>_parse_deployment\<close>: the status of a raw deployment.\<close>

definition status_map :: "(string \<times> string) list" where
  "status_map =
     [(''ready'', ''ready''),
      (''building'', ''building''),
      (''queued'', ''building''),
      (''initializing'', ''building''),
      (''error'', ''error''),
      (''failed'', ''error''),
      (''canceled'', ''error''),
      (''cancelled'', ''error'')]"

definition status_map_get :: "string \<Rightarrow> string" where
  "status_map_get ready_state =
     (case map_of status_map ready_state of None \<Rightarrow> ''unknown'' | Some v \<Rightarrow> v)"

definition ready_state_raw :: "(string \<times> json) list \<Rightarrow> json" where
  "ready_state_raw raw = py_or (dict_get raw ''readyState'') (py_or (dict_get raw ''state'') (JStr ''''))"

definition parse_status :: "(string \<times> json) list \<Rightarrow> error + string" where
  "parse_status raw =
     (case ready_state_raw raw of
        JStr s \<Rightarrow> Inr (status_map_get (str_lower s))
      | _ \<Rightarrow> Inl AttributeError)"

text \<open>\<^verbatim>\<open>_extract_git_meta\<close>: branch, sha, message and author of a raw deployment.\<close>

definition extract_git_meta :: "builtins \<Rightarrow> (string \<times> json) list \<Rightarrow> error + (string \<times> string \<times> string \<times> string)" where
  "extract_git_meta B raw =
     (case py_or (dict_get raw ''meta'') (JObj []) of
        JObj meta \<Rightarrow>
          (let branch =
                 py_or (dict_get meta ''githubCommitRef'')
                   (py_or (dict_get meta ''gitlabCommitRef'')
                     (py_or (dict_get meta ''bitbucketCommitRef'')
                       (py_or (dict_get meta ''branch'')
                         (py_or (dict_get meta ''commitRef'') (JStr '''')))));
               sha =
                 py_or (dict_get meta ''githubCommitSha'')
                   (py_or (dict_get meta ''gitlabCommitSha'')
                     (py_or (dict_get meta ''bitbucketCommitSha'')
                       (py_or (dict_get meta ''commitSha'')
                         (py_or (dict_get meta ''sha'') (JStr '''')))));
               message =
                 py_or (dict_get meta ''githubCommitMessage'')
                   (py_or (dict_get meta ''gitlabCommitMessage'')
                     (py_or (dict_get meta ''bitbucketCommitMessage'')
                       (py_or (dict_get meta ''commitMessage'') (JStr ''''))));
               author =
                 py_or (dict_get meta ''githubCommitAuthorName'')
                   (py_or (dict_get meta ''gitlabCommitAuthorName'')
                     (py_or (dict_get meta ''bitbucketCommitAuthorName'')
                       (py_or (dict_get meta ''commitAuthorName'') (JStr ''''))));
               creator = py_or (dict_get raw ''creator'') (JObj [])
           in if \<not> truthy author then
                (case creator of
                   JObj c \<Rightarrow>
                     Inr (py_str B branch, py_str B sha, py_str B message,
                          py_str B (py_or (dict_get c ''name'')
                                     (py_or (dict_get c ''username'')
                                       (py_or (dict_get c ''email'') (JStr '''')))))
                 | _ \<Rightarrow> Inl AttributeError)
              else Inr (py_str B branch, py_str B sha, py_str B message, py_str B author))
      | _ \<Rightarrow> Inl AttributeError)"

text \<open>
  \<^verbatim>\<open>_parse_deployment\<close>. \<open>raw\<close> is any decoded value (the caller passes whatever the
  response holds); \<open>t\<close> is the reading of \<^verbatim>\<open>datetime.now\<close> at this call. The statements
  are evaluated in the source's order, so the first exception raised is the result.
\<close>

definition parse_name :: "(string \<times> json) list \<Rightarrow> error + json" where
  "parse_name raw =
     (if truthy (dict_get raw ''name'') then Inr (dict_get raw ''name'')
      else (case (case map_of raw ''project'' of None \<Rightarrow> JObj [] | Some p \<Rightarrow> p) of
              JObj project \<Rightarrow> Inr (py_or (dict_get project ''name'') (JStr ''''))
            | _ \<Rightarrow> Inl AttributeError))"

definition parse_created_at :: "builtins \<Rightarrow> int \<Rightarrow> (string \<times> json) list \<Rightarrow> error + int" where
  "parse_created_at B t raw =
     (let created = py_or (dict_get raw ''createdAt'') (py_or (dict_get raw ''created_at'') (JInt 0))
      in if truthy created then
           (case py_int B created of Inl e \<Rightarrow> Inl e | Inr n \<Rightarrow> fromtimestamp B n)
         else Inr t)"

definition parse_deployment :: "builtins \<Rightarrow> int \<Rightarrow> json \<Rightarrow> error + deployment" where
  "parse_deployment B t raw_value =
     (case raw_value of
        JObj raw \<Rightarrow>
          (let the_id = py_str B (py_or (dict_get raw ''id'') (py_or (dict_get raw ''uid'') (JStr '''')))
           in case parse_name raw of Inl e \<Rightarrow> Inl e | Inr name_value \<Rightarrow>
             (let the_name = py_str B name_value;
                  the_url = py_str B (py_or (dict_get raw ''url'') (py_or (dict_get raw ''inspectorUrl'') (JStr '''')))
              in case parse_created_at B t raw of Inl e \<Rightarrow> Inl e | Inr the_created_at \<Rightarrow>
                (case parse_status raw of Inl e \<Rightarrow> Inl e | Inr the_status \<Rightarrow>
                  (case extract_git_meta B raw of Inl e \<Rightarrow> Inl e
                   | Inr (the_branch, sha, message, the_author) \<Rightarrow>
                       Inr \<lparr> dep_id = the_id,
                             name = (if the_name = [] then ''(unknown)'' else the_name),
                             url = the_url,
                             status = the_status,
                             created_at = the_created_at,
                             branch = the_branch,
                             commit_sha = sha,
                             commit_message = message,
                             author = the_author,
                             target = py_str B (py_or (dict_get raw ''target'')
                                                 (py_or (dict_get raw ''environment'') (JStr ''''))) \<rparr>))))
      | _ \<Rightarrow> Inl AttributeError)"


subsection \<open>The client and \<^verbatim>\<open>list_deployments\<close>\<close>

record client =
  token :: string
  team_id :: "string option"
  timeout_s :: int
  base_url_candidates :: "string list"

definition new_client :: "builtins \<Rightarrow> string \<Rightarrow> string option \<Rightarrow> client" where
  "new_client B tok tid =
     \<lparr> token = strip B tok,
       team_id = (let s = strip B (case tid of None \<Rightarrow> '''' | Some x \<Rightarrow> x)
                  in if s = [] then None else Some s),
       timeout_s = 10,
       base_url_candidates = [''https://api.vercel.com/v13'', ''https://api.vercel.com/v6''] \<rparr>"

text \<open>
  The transport is a parameter: \<open>http req\<close> is what \<^verbatim>\<open>session.get\<close> does with a request,
  an exception or a response; \<open>json_body\<close> is what \<^verbatim>\<open>res.json()\<close> does, an exception or
  the decoded value.
\<close>

record request =
  req_url :: string
  req_headers :: "(string \<times> string) list"
  req_params :: "(string \<times> json) list"
  req_timeout :: int

record response =
  status_code :: int
  json_body :: "error + json"

definition headers :: "client \<Rightarrow> (string \<times> string) list" where
  "headers c = [(''Authorization'', ''Bearer '' @ token c)]"

definition request_params :: "client \<Rightarrow> int \<Rightarrow> (string \<times> json) list" where
  "request_params c limit =
     [(''limit'', JInt (max 1 (min limit 50)))] @
     (case team_id c of
        None \<Rightarrow> []
      | Some t \<Rightarrow> if t \<noteq> [] then [(''teamId'', JStr t)] else [])"

definition make_request :: "client \<Rightarrow> (string \<times> json) list \<Rightarrow> string \<Rightarrow> request" where
  "make_request c params base =
     \<lparr> req_url = base @ ''/deployments'', req_headers = headers c,
       req_params = params, req_timeout = timeout_s c \<rparr>"

text \<open>
  \<^verbatim>\<open>for item in deployments_raw\<close>: a list gives its items, a dict its keys, a str its
  characters; any other value is not iterable.
\<close>

definition iter_items :: "json \<Rightarrow> error + json list" where
  "iter_items v =
     (case v of
        JList xs \<Rightarrow> Inr xs
      | JObj kvs \<Rightarrow> Inr (map (\<lambda>kv. JStr (fst kv)) kvs)
      | JStr s \<Rightarrow> Inr (map (\<lambda>ch. JStr [ch]) s)
      | _ \<Rightarrow> Inl TypeError)"

fun parse_items :: "builtins \<Rightarrow> nat \<Rightarrow> json list \<Rightarrow> error + deployment list" where
  "parse_items B i [] = Inr []"
| "parse_items B i (item # items) =
     (case parse_deployment B (now B i) item of
        Inl e \<Rightarrow> Inl e
      | Inr d \<Rightarrow>
          (case parse_items B (Suc i) items of
             Inl e \<Rightarrow> Inl e
           | Inr ds \<Rightarrow> Inr (d # ds)))"

text \<open>The slice \<^verbatim>\<open>xs[:n]\<close>: a negative \<open>n\<close> counts from the end.\<close>

definition slice_to :: "'a list \<Rightarrow> int \<Rightarrow> 'a list" where
  "slice_to xs n = (if 0 \<le> n then take (nat n) xs else take (length xs - nat (- n)) xs)"

text \<open>
  \<^verbatim>\<open>parsed.sort(key=lambda d: d.created_at, reverse=True)\<close> is a stable sort in
  descending order: \<open>sort_key\<close> on the negated key.
\<close>

definition sort_newest_first :: "deployment list \<Rightarrow> deployment list" where
  "sort_newest_first parsed = sort_key (\<lambda>d. - created_at d) parsed"

text \<open>The body of the \<^verbatim>\<open>try\<close> for one base URL, up to the parsed list.\<close>

definition fetch_parsed :: "builtins \<Rightarrow> (request \<Rightarrow> error + response) \<Rightarrow> request \<Rightarrow> error + deployment list" where
  "fetch_parsed B http req =
     (case http req of
        Inl e \<Rightarrow> Inl e
      | Inr res \<Rightarrow>
          if status_code res = 401 then Inl PermissionError
          else if 400 \<le> status_code res \<and> status_code res < 600 then Inl HTTPError
          else (case json_body res of
                  Inl e \<Rightarrow> Inl e
                | Inr j \<Rightarrow>
                    (case py_or j (JObj []) of
                       JObj data \<Rightarrow>
                         (case iter_items (py_or (dict_get data ''deployments'') (JObj data)) of
                            Inl e \<Rightarrow> Inl e
                          | Inr items \<Rightarrow> parse_items B 0 items)
                     | _ \<Rightarrow> Inl AttributeError)))"

definition try_base :: "builtins \<Rightarrow> (request \<Rightarrow> error + response) \<Rightarrow> request \<Rightarrow> int \<Rightarrow> error + deployment list" where
  "try_base B http req limit =
     (case fetch_parsed B http req of
        Inl e \<Rightarrow> Inl e
      | Inr parsed \<Rightarrow> Inr (slice_to (sort_newest_first parsed) limit))"

text \<open>
  The loop over the base URLs. The result is the requests handed to \<^verbatim>\<open>session.get\<close>, in
  order, and what \<^verbatim>\<open>list_deployments\<close> returns or raises.
\<close>

fun try_bases :: "builtins \<Rightarrow> (request \<Rightarrow> error + response) \<Rightarrow> client \<Rightarrow> (string \<times> json) list \<Rightarrow> int
    \<Rightarrow> string list \<Rightarrow> error option \<Rightarrow> request list \<times> (error + deployment list)" where
  "try_bases B http c params limit [] last_error =
     ([], case last_error of Some e \<Rightarrow> Inl e | None \<Rightarrow> Inr [])"
| "try_bases B http c params limit (base # bases) last_error =
     (case try_base B http (make_request c params base) limit of
        Inr ds \<Rightarrow> ([make_request c params base], Inr ds)
      | Inl e \<Rightarrow>
          (case try_bases B http c params limit bases (Some e) of
             (sent, r) \<Rightarrow> (make_request c params base # sent, r)))"

definition list_deployments :: "builtins \<Rightarrow> (request \<Rightarrow> error + response) \<Rightarrow> client \<Rightarrow> int
    \<Rightarrow> request list \<times> (error + deployment list)" where
  "list_deployments B http c limit =
     try_bases B http c (request_params c limit) limit (base_url_candidates c) None"

section \<open>config.py: \<^verbatim>\<open>load_config\<close>\<close>

text \<open>\<^verbatim>\<open>asdict(AppConfig())\<close>.\<close>

definition config_defaults :: "(string \<times> json) list" where
  "config_defaults =
     [(''token'', JStr ''''),
      (''team_id'', JStr ''''),
      (''refresh_interval'', JInt 30),
      (''max_items'', JInt 10),
      (''notify_prod_events'', JBool True)]"

text \<open>
  The file system and the JSON decoder, as \<^verbatim>\<open>load_config\<close> meets them:
  \<^item> \<open>config_dir_error\<close>: the exception \<^verbatim>\<open>_config_dir\<close> raises (from \<^verbatim>\<open>Path.home\<close> or
    \<^verbatim>\<open>mkdir\<close>), if any;
  \<^item> \<open>path_exists\<close>: what \<^verbatim>\<open>p.exists()\<close> returns or raises;
  \<^item> \<open>read_text\<close>: what \<^verbatim>\<open>p.read_text(encoding="utf-8")\<close> returns or raises;
  \<^item> \<open>json_loads\<close>: \<^verbatim>\<open>json.loads\<close>.
\<close>

record config_env =
  config_dir_error :: "error option"
  path_exists :: "error + bool"
  read_text :: "error + string"
  json_loads :: "string \<Rightarrow> error + json"

definition setdefault :: "(string \<times> json) list \<Rightarrow> string \<times> json \<Rightarrow> (string \<times> json) list" where
  "setdefault data kv = (if map_of data (fst kv) = None then data @ [kv] else data)"

definition load_config :: "config_env \<Rightarrow> error + (string \<times> json) list" where
  "load_config E =
     (case config_dir_error E of
        Some e \<Rightarrow> Inl e
      | None \<Rightarrow>
          (case path_exists E of
             Inl e \<Rightarrow> Inl e
           | Inr False \<Rightarrow> Inr config_defaults
           | Inr True \<Rightarrow>
               (case read_text E of
                  Inl e \<Rightarrow> Inr config_defaults
                | Inr txt \<Rightarrow>
                    (case json_loads E txt of
                       Inl e \<Rightarrow> Inr config_defaults
                     | Inr (JObj data) \<Rightarrow> Inr (foldl setdefault data config_defaults)
                     | Inr _ \<Rightarrow> Inr config_defaults))))"

section \<open>indicator.py: refresh and notifications\<close>

text \<open>
  The state of a \<^verbatim>\<open>VercelIndicator\<close>: its attributes (without the leading underscore),
  and what it has done to the toolkit: the timeout sources alive in the GLib main loop
  (id and interval), the next source id GLib hands out, the worker threads started whose
  \<^verbatim>\<open>_apply_update\<close> has not run yet, and the notifications shown, oldest first. GLib
  is modelled as documented: \<^verbatim>\<open>timeout_add_seconds\<close> registers a source under a new id,
  \<^verbatim>\<open>source_remove\<close> removes the source of an id. The menu and the icon are not modelled:
  building them reads the state and does not change it. A production notification is
  recorded by its deployment, not by its formatted text.
\<close>

datatype notification =
    OverallStatus string
  | ProductionEvent deployment
  | FetchFailed error

record indicator =
  refresh_timer_id :: "nat option"
  refresh_in_progress :: bool
  last_overall_status :: "string option"
  prod_seen :: "string \<rightharpoonup> string"
  prod_seen_bootstrapped :: bool
  refresh_interval :: int
  max_items :: int
  vercel_client :: client
  notify_prod_events :: bool
  timer_sources :: "(nat \<times> int) list"
  next_source_id :: nat
  workers :: nat
  notifications :: "notification list"

definition show_notification :: "notification \<Rightarrow> indicator \<Rightarrow> indicator" where
  "show_notification n s = s\<lparr>notifications := notifications s @ [n]\<rparr>"

definition overall_status :: "deployment list \<Rightarrow> string" where
  "overall_status deployments =
     (if list_ex (\<lambda>d. status d = ''building'') deployments then ''building''
      else if list_ex (\<lambda>d. status d = ''error'') deployments then ''error''
      else ''ready'')"

definition spawn_refresh_thread :: "indicator \<Rightarrow> indicator" where
  "spawn_refresh_thread s =
     (if refresh_in_progress s then s
      else s\<lparr>refresh_in_progress := True, workers := Suc (workers s)\<rparr>)"

definition source_remove :: "nat \<Rightarrow> indicator \<Rightarrow> indicator" where
  "source_remove i s = s\<lparr>timer_sources := filter (\<lambda>src. fst src \<noteq> i) (timer_sources s)\<rparr>"

definition timeout_add_seconds :: "int \<Rightarrow> indicator \<Rightarrow> nat \<times> indicator" where
  "timeout_add_seconds interval s =
     (next_source_id s,
      s\<lparr>timer_sources := timer_sources s @ [(next_source_id s, interval)],
        next_source_id := Suc (next_source_id s)\<rparr>)"

definition schedule_refresh :: "indicator \<Rightarrow> bool \<Rightarrow> indicator" where
  "schedule_refresh s immediate =
     (let s1 = (case refresh_timer_id s of
                  Some i \<Rightarrow> (source_remove i s)\<lparr>refresh_timer_id := None\<rparr>
                | None \<Rightarrow> s);
          s2 = (if immediate then spawn_refresh_thread s1 else s1)
      in case timeout_add_seconds (refresh_interval s2) s2 of
           (new_id, s3) \<Rightarrow> s3\<lparr>refresh_timer_id := Some new_id\<rparr>)"

definition manual_refresh :: "indicator \<Rightarrow> indicator" where
  "manual_refresh s = schedule_refresh s True"

text \<open>\<^verbatim>\<open>_refresh_timeout_cb\<close> returns \<open>True\<close>: its source stays alive.\<close>

definition refresh_timeout_cb :: "indicator \<Rightarrow> indicator \<times> bool" where
  "refresh_timeout_cb s = (spawn_refresh_thread s, True)"

definition send_prod_notification :: "deployment \<Rightarrow> indicator \<Rightarrow> indicator" where
  "send_prod_notification d s = show_notification (ProductionEvent d) s"

definition is_production :: "deployment \<Rightarrow> bool" where
  "is_production d = (str_lower (target d) = ''production'')"

definition bootstrap_one :: "deployment \<Rightarrow> indicator \<Rightarrow> indicator" where
  "bootstrap_one d s = s\<lparr>prod_seen := (prod_seen s)(dep_id d \<mapsto> status d)\<rparr>"

definition notify_one :: "deployment \<Rightarrow> indicator \<Rightarrow> indicator" where
  "notify_one d s =
     (if prod_seen s (dep_id d) = None \<or> prod_seen s (dep_id d) \<noteq> Some (status d)
      then (send_prod_notification d s)\<lparr>prod_seen := (prod_seen s)(dep_id d \<mapsto> status d)\<rparr>
      else s)"

definition notify_production_events :: "indicator \<Rightarrow> deployment list \<Rightarrow> indicator" where
  "notify_production_events s deployments =
     (let production = filter is_production deployments
      in if \<not> prod_seen_bootstrapped s
         then (fold bootstrap_one production s)\<lparr>prod_seen_bootstrapped := True\<rparr>
         else fold notify_one production s)"

text \<open>
  \<^verbatim>\<open>_apply_update\<close>. Its calls of \<^verbatim>\<open>_rebuild_dynamic_items\<close> and \<^verbatim>\<open>_set_icon_for_status\<close>
  rebuild the menu and set the icon, and are taken to return.
\<close>

definition apply_update :: "indicator \<Rightarrow> deployment list \<Rightarrow> indicator" where
  "apply_update s deployments =
     (let s1 = s\<lparr>refresh_in_progress := False\<rparr>;
          overall = (if deployments \<noteq> [] then overall_status deployments else ''error'');
          s2 = (if Some overall \<noteq> last_overall_status s1 \<and> last_overall_status s1 \<noteq> None
                then show_notification (OverallStatus overall) s1 else s1);
          s3 = s2\<lparr>last_overall_status := Some overall\<rparr>
      in if notify_prod_events s3 then notify_production_events s3 deployments else s3)"

text \<open>
  The end of a worker thread, seen from the main loop: \<open>r\<close> is what
  \<^verbatim>\<open>list_deployments\<close> returned or raised. A failure shows a notification and delivers
  the empty list.
\<close>

definition worker_done :: "indicator \<Rightarrow> error + deployment list \<Rightarrow> indicator" where
  "worker_done s r =
     (case r of
        Inr deployments \<Rightarrow> apply_update (s\<lparr>workers := workers s - 1\<rparr>) deployments
      | Inl e \<Rightarrow> apply_update ((show_notification (FetchFailed e) s)\<lparr>workers := workers s - 1\<rparr>) [])"

text \<open>
  \<^verbatim>\<open>_reconfigure\<close>; \<open>r\<close> is what \<^verbatim>\<open>load_config()\<close> returned or raised. An exception leaves
  the attributes assigned before it; the result is the state and the exception, if any.
\<close>

definition reconfigure :: "builtins \<Rightarrow> indicator \<Rightarrow> error + (string \<times> json) list \<Rightarrow> indicator \<times> error option" where
  "reconfigure B s r =
     (case r of
        Inl e \<Rightarrow> (s, Some e)
      | Inr cfg \<Rightarrow>
          (case py_int B (py_or (dict_get cfg ''refresh_interval'') (JInt 30)) of
             Inl e \<Rightarrow> (s, Some e)
           | Inr ri \<Rightarrow>
               (case py_int B (py_or (dict_get cfg ''max_items'') (JInt 10)) of
                  Inl e \<Rightarrow> (s\<lparr>refresh_interval := ri\<rparr>, Some e)
                | Inr mi \<Rightarrow>
                    (let tok = py_str B (py_or (dict_get cfg ''token'') (JStr ''''));
                         tid = py_str B (py_or (dict_get cfg ''team_id'') (JStr ''''));
                         val = dict_get cfg ''notify_prod_events''
                     in (s\<lparr>refresh_interval := ri, max_items := mi,
                            vercel_client := new_client B tok (if tid = [] then None else Some tid),
                            notify_prod_events := (if val = JNull then True else truthy val)\<rparr>,
                         None)))))"

definition on_prefs_saved :: "builtins \<Rightarrow> indicator \<Rightarrow> error + (string \<times> json) list \<Rightarrow> indicator \<times> error option" where
  "on_prefs_saved B s r =
     (case reconfigure B s r of
        (s', Some e) \<Rightarrow> (s', Some e)
      | (s', None) \<Rightarrow> (schedule_refresh s' True, None))"

text \<open>
  \<^verbatim>\<open>__init__\<close>: the attributes of lines 43 to 47, then \<^verbatim>\<open>_reconfigure\<close>, then the first
  schedule when a token is set. \<open>r1\<close> and \<open>r2\<close> are the results of the two calls of
  \<^verbatim>\<open>load_config()\<close>. The attributes \<^verbatim>\<open>_reconfigure\<close> assigns have no value before it; an
  exception leaves no indicator.
\<close>

definition fresh_indicator :: indicator where
  "fresh_indicator =
     \<lparr> refresh_timer_id = None,
       refresh_in_progress = False,
       last_overall_status = None,
       prod_seen = Map.empty,
       prod_seen_bootstrapped = False,
       refresh_interval = 0,
       max_items = 0,
       vercel_client = \<lparr> token = [], team_id = None, timeout_s = 10, base_url_candidates = [] \<rparr>,
       notify_prod_events = True,
       timer_sources = [],
       next_source_id = 1,
       workers = 0,
       notifications = [] \<rparr>"

definition indicator_init :: "builtins \<Rightarrow> error + (string \<times> json) list \<Rightarrow> error + (string \<times> json) list
    \<Rightarrow> error + indicator" where
  "indicator_init B r1 r2 =
     (case reconfigure B fresh_indicator r1 of
        (s, Some e) \<Rightarrow> Inl e
      | (s, None) \<Rightarrow>
          (case r2 of
             Inl e \<Rightarrow> Inl e
           | Inr cfg \<Rightarrow>
               (case py_or (dict_get cfg ''token'') (JStr '''') of
                  JStr tok \<Rightarrow> if strip B tok = [] then Inr s else Inr (schedule_refresh s True)
                | _ \<Rightarrow> Inl AttributeError)))"

text \<open>
  The states an indicator goes through. Every callback runs on the GLib main loop, one
  at a time: the menu item "Refresh now", a tick of a timeout source that is alive, the
  preferences dialog saving, and the \<^verbatim>\<open>_apply_update\<close> a worker thread queues with
  \<^verbatim>\<open>idle_add\<close> when its fetch ends (one per worker started).
\<close>

inductive reachable :: "builtins \<Rightarrow> indicator \<Rightarrow> bool" for B :: builtins where
  start: "indicator_init B r1 r2 = Inr s \<Longrightarrow> reachable B s"
| refresh_now: "reachable B s \<Longrightarrow> reachable B (manual_refresh s)"
| tick: "reachable B s \<Longrightarrow> timer_sources s \<noteq> [] \<Longrightarrow> reachable B (fst (refresh_timeout_cb s))"
| prefs_saved: "reachable B s \<Longrightarrow> reachable B (fst (on_prefs_saved B s r))"
| fetched: "reachable B s \<Longrightarrow> 0 < workers s \<Longrightarrow> reachable B (worker_done s r)"

text \<open>
  An instance of the built-ins for evaluating examples: \<open>str\<close> of a non-string is a
  placeholder, \<open>int\<close> of a \<open>str\<close> raises, timestamps are exact, the clock reads the item
  number, and \<open>strip\<close> removes spaces at both ends.
\<close>

definition example_builtins :: builtins where
  "example_builtins =
     \<lparr> repr = (\<lambda>v. ''<repr>''),
       int_of_str = (\<lambda>s. None),
       fromtimestamp = (\<lambda>n. Inr (1000 * n)),
       now = (\<lambda>i. int i),
       strip = (\<lambda>s. rev (dropWhile (\<lambda>c. c = CHR '' '') (rev (dropWhile (\<lambda>c. c = CHR '' '') s)))) \<rparr>"

text \<open>A deployment with a given id, status and target, for evaluating examples.\<close>

definition example_deployment :: "string \<Rightarrow> string \<Rightarrow> string \<Rightarrow> deployment" where
  "example_deployment i st tg =
     \<lparr> dep_id = i, name = ''site'', url = ''site.vercel.app'', status = st, created_at = 0,
       branch = ''main'', commit_sha = [], commit_message = [], author = [], target = tg \<rparr>"

text \<open>
  A configuration with a token, and the indicator \<^verbatim>\<open>__init__\<close> builds from it: the first
  fetch is in progress and the first timer is registered.
\<close>

definition example_config :: "(string \<times> json) list" where
  "example_config =
     [(''token'', JStr ''tok''),
      (''team_id'', JStr []),
      (''refresh_interval'', JInt 30),
      (''max_items'', JInt 10),
      (''notify_prod_events'', JBool True)]"

definition example_started :: indicator where
  "example_started =
     \<lparr> refresh_timer_id = Some 1,
       refresh_in_progress = True,
       last_overall_status = None,
       prod_seen = Map.empty,
       prod_seen_bootstrapped = False,
       refresh_interval = 30,
       max_items = 10,
       vercel_client = \<lparr> token = ''tok'', team_id = None, timeout_s = 10,
                         base_url_candidates =
                           [''https://api.vercel.com/v13'', ''https://api.vercel.com/v6''] \<rparr>,
       notify_prod_events = True,
       timer_sources = [(1, 30)],
       next_source_id = 2,
       workers = 1,
       notifications = [] \<rparr>"

text \<open>
  A transport for evaluating examples: every request is answered with status 200 and
  two deployments, \<open>a\<close> created at 1000 ms and \<open>b\<close> created at 2000 ms.
\<close>

definition example_http :: "request \<Rightarrow> error + response" where
  "example_http req =
     Inr \<lparr> status_code = 200,
           json_body = Inr (JObj [(''deployments'',
             JList [JObj [(''uid'', JStr ''a''), (''createdAt'', JInt 1000)],
                    JObj [(''uid'', JStr ''b''), (''createdAt'', JInt 2000)]])]) \<rparr>"

text \<open>
  The claim about \<^verbatim>\<open>load_config\<close> in its own words: the object the configuration file
  parses to, when the file exists, can be read and parses to an object.
\<close>

definition parsed_config :: "config_env \<Rightarrow> (string \<times> json) list option" where
  "parsed_config E =
     (case path_exists E of
        Inr True \<Rightarrow>
          (case read_text E of
             Inr txt \<Rightarrow> (case json_loads E txt of Inr (JObj data) \<Rightarrow> Some data | _ \<Rightarrow> None)
           | Inl e \<Rightarrow> None)
      | _ \<Rightarrow> None)"

text \<open>
  Environments for evaluating examples: the configuration directory cannot be created;
  and a configuration file that holds a token and an unknown key.
\<close>

definition example_env_no_dir :: config_env where
  "example_env_no_dir =
     \<lparr> config_dir_error = Some PermissionError,
       path_exists = Inr False,
       read_text = Inl OSError,
       json_loads = (\<lambda>txt. Inl JSONDecodeError) \<rparr>"

definition example_env_file :: config_env where
  "example_env_file =
     \<lparr> config_dir_error = None,
       path_exists = Inr True,
       read_text = Inr ''(the file text)'',
       json_loads = (\<lambda>txt. Inr (JObj [(''token'', JStr ''tok''), (''theme'', JStr ''dark'')])) \<rparr>"

text \<open>
  Predicates the theorems are stated with: a notification is an "Overall status" one;
  the worker count agrees with the \<^verbatim>\<open>_refresh_in_progress\<close> flag; the timeout sources
  alive are exactly the one \<^verbatim>\<open>_refresh_timer_id\<close> names.
\<close>

fun is_overall :: "notification \<Rightarrow> bool" where
  "is_overall (OverallStatus st) = True"
| "is_overall (ProductionEvent d) = False"
| "is_overall (FetchFailed e) = False"

definition fetch_inv :: "indicator \<Rightarrow> bool" where
  "fetch_inv s = (workers s = (if refresh_in_progress s then 1 else 0))"

definition timer_inv :: "indicator \<Rightarrow> bool" where
  "timer_inv s =
     (map fst (timer_sources s) = (case refresh_timer_id s of None \<Rightarrow> [] | Some i \<Rightarrow> [i]))"

section \<open>Status classification\<close>

lemma status_map_get_table:
  "status_map_get r =
     (if r = ''ready'' then ''ready''
      else if r \<in> {''building'', ''queued'', ''initializing''} then ''building''
      else if r \<in> {''error'', ''failed'', ''canceled'', ''cancelled''} then ''error''
      else ''unknown'')"
  by (simp add: status_map_get_def status_map_def)

lemma status_map_get_range:
  "status_map_get r \<in> {''ready'', ''building'', ''error'', ''unknown''}"
  by (simp add: status_map_get_table)

lemma parse_status_Inr:
  "parse_status raw = Inr st \<Longrightarrow>
     \<exists>s. ready_state_raw raw = JStr s \<and> st = status_map_get (str_lower s)"
  by (auto simp: parse_status_def split: json.splits)

lemma parse_deployment_Inr:
  "parse_deployment B t v = Inr d \<Longrightarrow>
     \<exists>raw. v = JObj raw \<and> parse_status raw = Inr (status d)"
  by (auto simp: parse_deployment_def Let_def split: json.splits sum.splits prod.splits)

text \<open>
  C1 (amended). The status table is total on strings: \<open>ready\<close> gives ready;
  \<open>building\<close>, \<open>queued\<close>, \<open>initializing\<close> give building; \<open>error\<close>, \<open>failed\<close>,
  \<open>canceled\<close>, \<open>cancelled\<close> give error; every other string gives unknown, so the value
  is one of ready, building, error, unknown. The value looked up is \<open>readyState\<close>,
  else \<open>state\<close>, else the empty string, lowercased. When that value is a string the
  status step returns the table's value for it; when it is not a string (a truthy number,
  bool, list or dict) the step raises AttributeError. Every deployment that
  \<^verbatim>\<open>_parse_deployment\<close> returns comes from a raw object whose value is a string, and its
  status is the table's value, one of the four.
\<close>

theorem status_classification:
  "(\<forall>r. status_map_get r =
         (if r = ''ready'' then ''ready''
          else if r \<in> {''building'', ''queued'', ''initializing''} then ''building''
          else if r \<in> {''error'', ''failed'', ''canceled'', ''cancelled''} then ''error''
          else ''unknown'')
       \<and> status_map_get r \<in> {''ready'', ''building'', ''error'', ''unknown''})
   \<and> ready_state_raw raw =
         (if truthy (dict_get raw ''readyState'') then dict_get raw ''readyState''
          else if truthy (dict_get raw ''state'') then dict_get raw ''state''
          else JStr '''')
   \<and> (ready_state_raw raw = JStr s \<longrightarrow>
         parse_status raw = Inr (status_map_get (str_lower s)))
   \<and> ((\<forall>s'. ready_state_raw raw \<noteq> JStr s') \<longrightarrow> parse_status raw = Inl AttributeError)
   \<and> (parse_deployment B t v = Inr d \<longrightarrow>
         (\<exists>raw' s'. v = JObj raw' \<and> ready_state_raw raw' = JStr s'
                    \<and> status d = status_map_get (str_lower s'))
         \<and> status d \<in> {''ready'', ''building'', ''error'', ''unknown''})"
proof -
  have table: "\<forall>r. status_map_get r =
         (if r = ''ready'' then ''ready''
          else if r \<in> {''building'', ''queued'', ''initializing''} then ''building''
          else if r \<in> {''error'', ''failed'', ''canceled'', ''cancelled''} then ''error''
          else ''unknown'')
       \<and> status_map_get r \<in> {''ready'', ''building'', ''error'', ''unknown''}"
    using status_map_get_table status_map_get_range by blast
  have sel: "ready_state_raw raw =
         (if truthy (dict_get raw ''readyState'') then dict_get raw ''readyState''
          else if truthy (dict_get raw ''state'') then dict_get raw ''state''
          else JStr '''')"
    by (simp add: ready_state_raw_def py_or_def)
  have str: "ready_state_raw raw = JStr s \<longrightarrow>
         parse_status raw = Inr (status_map_get (str_lower s))"
    by (simp add: parse_status_def)
  have nostr: "(\<forall>s'. ready_state_raw raw \<noteq> JStr s') \<longrightarrow> parse_status raw = Inl AttributeError"
    by (cases "ready_state_raw raw") (simp_all add: parse_status_def)
  have dep: "parse_deployment B t v = Inr d \<longrightarrow>
         (\<exists>raw' s'. v = JObj raw' \<and> ready_state_raw raw' = JStr s'
                    \<and> status d = status_map_get (str_lower s'))
         \<and> status d \<in> {''ready'', ''building'', ''error'', ''unknown''}"
  proof
    assume "parse_deployment B t v = Inr d"
    then obtain raw' where v: "v = JObj raw'" and st: "parse_status raw' = Inr (status d)"
      using parse_deployment_Inr by blast
    from st obtain s' where s': "ready_state_raw raw' = JStr s'"
      "status d = status_map_get (str_lower s')"
      using parse_status_Inr by blast
    have "status d \<in> {''ready'', ''building'', ''error'', ''unknown''}"
      unfolding s'(2) by (rule status_map_get_range)
    with v s' show "(\<exists>raw' s'. v = JObj raw' \<and> ready_state_raw raw' = JStr s'
                    \<and> status d = status_map_get (str_lower s'))
         \<and> status d \<in> {''ready'', ''building'', ''error'', ''unknown''}"
      by blast
  qed
  from table sel str nostr dep show ?thesis by blast
qed

text \<open>
  The theorem at the raw object \<^verbatim>\<open>{"id": "a", "readyState": "QUEUED"}\<close>, whose status is
  building, and at \<^verbatim>\<open>{"state": [null]}\<close>, whose state is a list: the status step raises.
\<close>

theorem status_classification_witness:
  "ready_state_raw [(''id'', JStr ''a''), (''readyState'', JStr ''QUEUED'')] = JStr ''QUEUED''
   \<and> parse_status [(''id'', JStr ''a''), (''readyState'', JStr ''QUEUED'')] = Inr ''building''
   \<and> parse_deployment example_builtins 0
        (JObj [(''id'', JStr ''a''), (''readyState'', JStr ''QUEUED'')])
       = Inr \<lparr> dep_id = ''a'', name = ''(unknown)'', url = [], status = ''building'',
               created_at = 0, branch = [], commit_sha = [], commit_message = [],
               author = [], target = [] \<rparr>
   \<and> status_map_get (str_lower ''QUEUED'') \<in> {''ready'', ''building'', ''error'', ''unknown''}
   \<and> parse_status [(''state'', JList [JNull])] = Inl AttributeError"
proof -
  let ?raw = "[(''id'', JStr ''a''), (''readyState'', JStr ''QUEUED'')]"
  let ?d = "\<lparr> dep_id = ''a'', name = ''(unknown)'', url = [], status = ''building'',
               created_at = 0, branch = [], commit_sha = [], commit_message = [],
               author = [], target = [] \<rparr>"
  let ?other = "[(''state'', JList [JNull])]"
  have sel: "ready_state_raw ?raw = JStr ''QUEUED''"
    by (simp add: ready_state_raw_def py_or_def dict_get_def)
  have low: "status_map_get (str_lower ''QUEUED'') = ''building''"
    by (simp add: str_lower_def char_lower_def status_map_get_def status_map_def)
  have d: "parse_deployment example_builtins 0 (JObj ?raw) = Inr ?d"
    by (simp add: parse_deployment_def parse_name_def parse_created_at_def parse_status_def
        extract_git_meta_def ready_state_raw_def py_or_def dict_get_def py_str_def Let_def low)
  have no_str: "\<forall>s'. ready_state_raw ?other \<noteq> JStr s'"
    by (simp add: ready_state_raw_def py_or_def dict_get_def)
  note inst = status_classification [of ?raw "''QUEUED''" example_builtins 0 "JObj ?raw" ?d]
  note inst_other = status_classification [of ?other "[]" example_builtins 0 "JObj ?other" ?d]
  from inst sel low have st: "parse_status ?raw = Inr ''building''"
    by simp
  from inst have rng: "status_map_get (str_lower ''QUEUED'') \<in>
      {''ready'', ''building'', ''error'', ''unknown''}"
    by blast
  from inst_other no_str have err: "parse_status ?other = Inl AttributeError"
    by blast
  from sel st d rng err show ?thesis by blast
qed

text \<open>
  C1 as stated fails at the raw object \<^verbatim>\<open>{"readyState": 5}\<close>: the value selected is the
  number 5, \<^verbatim>\<open>.lower()\<close> raises AttributeError and no deployment results.
\<close>

theorem status_classification_counterexample:
  "parse_status [(''readyState'', JInt 5)] = Inl AttributeError
   \<and> parse_deployment example_builtins 0 (JObj [(''readyState'', JInt 5)]) = Inl AttributeError"
  by (simp add: parse_deployment_def parse_name_def parse_created_at_def parse_status_def
      ready_state_raw_def py_or_def dict_get_def py_str_def)

section \<open>Git metadata lookup\<close>





section \<open>Production notifications\<close>

lemma find_append_case:
  "find P (xs @ ys) = (case find P xs of None \<Rightarrow> find P ys | Some x \<Rightarrow> Some x)"
  by (induction xs) simp_all

lemma find_distinct_id:
  "distinct (map dep_id ps) \<Longrightarrow> d \<in> set ps \<Longrightarrow> find (\<lambda>x. dep_id x = dep_id d) ps = Some d"
  by (induction ps) (auto simp: rev_image_eqI)

lemma fold_bootstrap_notifications:
  "notifications (fold bootstrap_one ps s) = notifications s"
  by (induction ps arbitrary: s) (simp_all add: bootstrap_one_def)

lemma fold_bootstrap_prod_seen:
  "prod_seen (fold bootstrap_one ps s) k =
     (case find (\<lambda>d. dep_id d = k) (rev ps) of
        Some d \<Rightarrow> Some (status d)
      | None \<Rightarrow> prod_seen s k)"
  by (induction ps arbitrary: s) (auto simp: bootstrap_one_def find_append_case split: option.splits)





text \<open>
  C2. On the first call of \<^verbatim>\<open>_notify_production_events\<close> (the bootstrap flag is false) no
  notification is shown; the flag becomes true; and every production deployment (target
  equal to \<open>production\<close> after lowercasing) is recorded in \<^verbatim>\<open>_prod_seen\<close> under its id, in
  list order: an id's entry is the status of the last production deployment with that
  id, and the entries of other ids are untouched. With distinct ids, every production
  deployment's status is the entry of its id.
\<close>

theorem bootstrap_records_without_notifying:
  assumes "\<not> prod_seen_bootstrapped s"
  shows "notifications (notify_production_events s ds) = notifications s
       \<and> prod_seen_bootstrapped (notify_production_events s ds)
       \<and> (\<forall>k. prod_seen (notify_production_events s ds) k =
              (case find (\<lambda>d. dep_id d = k) (rev (filter is_production ds)) of
                 Some d \<Rightarrow> Some (status d)
               | None \<Rightarrow> prod_seen s k))
       \<and> (distinct (map dep_id (filter is_production ds)) \<longrightarrow>
            (\<forall>d \<in> set ds. is_production d \<longrightarrow>
               prod_seen (notify_production_events s ds) (dep_id d) = Some (status d)))
       \<and> (\<forall>d. is_production d = (str_lower (target d) = ''production''))"
proof -
  let ?P = "filter is_production ds"
  have eq: "notify_production_events s ds =
              (fold bootstrap_one ?P s)\<lparr>prod_seen_bootstrapped := True\<rparr>"
    using assms by (simp add: notify_production_events_def)
  have n: "notifications (notify_production_events s ds) = notifications s"
    by (simp add: eq fold_bootstrap_notifications)
  have b: "prod_seen_bootstrapped (notify_production_events s ds)"
    by (simp add: eq)
  have m: "\<forall>k. prod_seen (notify_production_events s ds) k =
              (case find (\<lambda>d. dep_id d = k) (rev ?P) of
                 Some d \<Rightarrow> Some (status d)
               | None \<Rightarrow> prod_seen s k)"
    by (simp add: eq fold_bootstrap_prod_seen)
  have a: "distinct (map dep_id ?P) \<longrightarrow>
            (\<forall>d \<in> set ds. is_production d \<longrightarrow>
               prod_seen (notify_production_events s ds) (dep_id d) = Some (status d))"
  proof (intro impI ballI)
    fix d assume dist: "distinct (map dep_id ?P)" and d: "d \<in> set ds" "is_production d"
    then have "d \<in> set (rev ?P)" by simp
    moreover from dist have "distinct (map dep_id (rev ?P))" by (simp add: rev_map [symmetric])
    ultimately have "find (\<lambda>x. dep_id x = dep_id d) (rev ?P) = Some d"
      by (rule find_distinct_id [rotated])
    with m show "prod_seen (notify_production_events s ds) (dep_id d) = Some (status d)"
      by simp
  qed
  have p: "\<forall>d. is_production d = (str_lower (target d) = ''production'')"
    by (simp add: is_production_def)
  from n b m a p show ?thesis by blast
qed

text \<open>
  The theorem at a new indicator and a first poll of a production deployment \<open>a\<close>
  (target written \<open>Production\<close>) and a preview deployment \<open>b\<close>: nothing is shown, \<open>a\<close> is
  recorded, \<open>b\<close> is not.
\<close>

theorem bootstrap_records_without_notifying_witness:
  "\<not> prod_seen_bootstrapped fresh_indicator
   \<and> notifications (notify_production_events fresh_indicator
        [example_deployment ''a'' ''ready'' ''Production'',
         example_deployment ''b'' ''error'' ''preview'']) = []
   \<and> prod_seen_bootstrapped (notify_production_events fresh_indicator
        [example_deployment ''a'' ''ready'' ''Production'',
         example_deployment ''b'' ''error'' ''preview''])
   \<and> prod_seen (notify_production_events fresh_indicator
        [example_deployment ''a'' ''ready'' ''Production'',
         example_deployment ''b'' ''error'' ''preview'']) ''a'' = Some ''ready''
   \<and> prod_seen (notify_production_events fresh_indicator
        [example_deployment ''a'' ''ready'' ''Production'',
         example_deployment ''b'' ''error'' ''preview'']) ''b'' = None"
proof -
  have h: "\<not> prod_seen_bootstrapped fresh_indicator"
    by (simp add: fresh_indicator_def)
  have pa: "is_production (example_deployment ''a'' ''ready'' ''Production'')"
    by (simp add: is_production_def example_deployment_def str_lower_def char_lower_def)
  have pb: "\<not> is_production (example_deployment ''b'' ''error'' ''preview'')"
    by (simp add: is_production_def example_deployment_def str_lower_def char_lower_def)
  from bootstrap_records_without_notifying [OF h,
      of "[example_deployment ''a'' ''ready'' ''Production'',
           example_deployment ''b'' ''error'' ''preview'']"]
  show ?thesis
    using h pa pb by (simp add: fresh_indicator_def example_deployment_def)
qed




section \<open>The refresh loop\<close>

lemma fold_bootstrap_frame:
  "workers (fold bootstrap_one ps s) = workers s
   \<and> refresh_in_progress (fold bootstrap_one ps s) = refresh_in_progress s
   \<and> timer_sources (fold bootstrap_one ps s) = timer_sources s
   \<and> refresh_timer_id (fold bootstrap_one ps s) = refresh_timer_id s
   \<and> last_overall_status (fold bootstrap_one ps s) = last_overall_status s"
  by (induction ps arbitrary: s) (simp_all add: bootstrap_one_def)

lemma fold_notify_frame:
  "workers (fold notify_one ps s) = workers s
   \<and> refresh_in_progress (fold notify_one ps s) = refresh_in_progress s
   \<and> timer_sources (fold notify_one ps s) = timer_sources s
   \<and> refresh_timer_id (fold notify_one ps s) = refresh_timer_id s
   \<and> last_overall_status (fold notify_one ps s) = last_overall_status s
   \<and> filter is_overall (notifications (fold notify_one ps s)) = filter is_overall (notifications s)"
  by (induction ps arbitrary: s)
     (simp_all add: notify_one_def send_prod_notification_def show_notification_def)

lemma notify_production_events_frame:
  "workers (notify_production_events s ds) = workers s
   \<and> refresh_in_progress (notify_production_events s ds) = refresh_in_progress s
   \<and> timer_sources (notify_production_events s ds) = timer_sources s
   \<and> refresh_timer_id (notify_production_events s ds) = refresh_timer_id s
   \<and> last_overall_status (notify_production_events s ds) = last_overall_status s
   \<and> filter is_overall (notifications (notify_production_events s ds)) =
       filter is_overall (notifications s)"
  by (simp add: notify_production_events_def Let_def fold_bootstrap_frame fold_notify_frame
      fold_bootstrap_notifications)

lemma apply_update_frame:
  "workers (apply_update s ds) = workers s
   \<and> \<not> refresh_in_progress (apply_update s ds)
   \<and> timer_sources (apply_update s ds) = timer_sources s
   \<and> refresh_timer_id (apply_update s ds) = refresh_timer_id s"
  by (simp add: apply_update_def Let_def notify_production_events_frame show_notification_def)

text \<open>
  C4. \<^verbatim>\<open>_apply_update\<close> shows one "Overall status" notification when the new overall
  status differs from \<^verbatim>\<open>_last_overall_status\<close> and that is not \<open>None\<close>, and none
  otherwise; either way \<^verbatim>\<open>_last_overall_status\<close> is the new overall status afterwards.
  The new overall status is \<^verbatim>\<open>_overall_status(deployments)\<close> for a non-empty list and
  \<open>error\<close> for the empty one.
\<close>

theorem apply_update_overall_notification:
  "filter is_overall (notifications (apply_update s ds)) =
     filter is_overall (notifications s) @
       (let overall = (if ds \<noteq> [] then overall_status ds else ''error'')
        in if Some overall \<noteq> last_overall_status s \<and> last_overall_status s \<noteq> None
           then [OverallStatus overall] else [])
   \<and> last_overall_status (apply_update s ds) =
       Some (if ds \<noteq> [] then overall_status ds else ''error'')"
  by (simp add: apply_update_def Let_def notify_production_events_frame show_notification_def)

text \<open>
  The theorem at a building deployment: an indicator whose last overall status was
  \<open>ready\<close> shows "Overall status: building"; a new indicator (no last status) shows
  nothing; both remember \<open>building\<close>.
\<close>

theorem apply_update_overall_notification_witness:
  "filter is_overall (notifications (apply_update
       (fresh_indicator\<lparr>last_overall_status := Some ''ready''\<rparr>)
       [example_deployment ''a'' ''building'' ''production''])) = [OverallStatus ''building'']
   \<and> filter is_overall (notifications (apply_update fresh_indicator
       [example_deployment ''a'' ''building'' ''production''])) = []
   \<and> last_overall_status (apply_update fresh_indicator
       [example_deployment ''a'' ''building'' ''production'']) = Some ''building''"
  using apply_update_overall_notification
          [of "fresh_indicator\<lparr>last_overall_status := Some ''ready''\<rparr>"
              "[example_deployment ''a'' ''building'' ''production'']"]
        apply_update_overall_notification
          [of fresh_indicator "[example_deployment ''a'' ''building'' ''production'']"]
  by (simp add: fresh_indicator_def overall_status_def example_deployment_def)

text \<open>
  C9. \<^verbatim>\<open>_overall_status\<close> is \<open>building\<close> if some deployment is building, otherwise
  \<open>error\<close> if some deployment is in error, otherwise \<open>ready\<close>; on the empty list it is
  \<open>ready\<close>. \<^verbatim>\<open>_apply_update\<close> takes \<open>error\<close> as the overall status of the empty list and
  \<^verbatim>\<open>_overall_status\<close> of a non-empty one.
\<close>

theorem overall_status_priority:
  "overall_status ds =
     (if (\<exists>d \<in> set ds. status d = ''building'') then ''building''
      else if (\<exists>d \<in> set ds. status d = ''error'') then ''error''
      else ''ready'')
   \<and> overall_status [] = ''ready''
   \<and> last_overall_status (apply_update s []) = Some ''error''
   \<and> (ds \<noteq> [] \<longrightarrow> last_overall_status (apply_update s ds) = Some (overall_status ds))"
  by (simp add: overall_status_def list_ex_iff apply_update_def Let_def
      notify_production_events_frame)

text \<open>
  The theorem at lists with an error and a building deployment (building wins), with an
  error and a ready one (error wins), and at the empty list.
\<close>

theorem overall_status_priority_witness:
  "overall_status [example_deployment ''a'' ''error'' ''production'',
                   example_deployment ''b'' ''building'' ''preview''] = ''building''
   \<and> overall_status [example_deployment ''a'' ''error'' ''production'',
                     example_deployment ''b'' ''ready'' ''preview''] = ''error''
   \<and> last_overall_status (apply_update fresh_indicator
        [example_deployment ''a'' ''error'' ''production'',
         example_deployment ''b'' ''building'' ''preview'']) = Some ''building''
   \<and> last_overall_status (apply_update fresh_indicator []) = Some ''error''
   \<and> overall_status [] = ''ready''"
  using overall_status_priority
          [of "[example_deployment ''a'' ''error'' ''production'',
                example_deployment ''b'' ''building'' ''preview'']" fresh_indicator]
        overall_status_priority
          [of "[example_deployment ''a'' ''error'' ''production'',
                example_deployment ''b'' ''ready'' ''preview'']" fresh_indicator]
  by (simp add: example_deployment_def)

subsection \<open>Invariants of the reachable states\<close>

lemma spawn_fetch_inv: "fetch_inv s \<Longrightarrow> fetch_inv (spawn_refresh_thread s)"
  by (simp add: fetch_inv_def spawn_refresh_thread_def)

lemma spawn_timer_frame:
  "timer_sources (spawn_refresh_thread s) = timer_sources s
   \<and> refresh_timer_id (spawn_refresh_thread s) = refresh_timer_id s
   \<and> next_source_id (spawn_refresh_thread s) = next_source_id s
   \<and> refresh_interval (spawn_refresh_thread s) = refresh_interval s"
  by (simp add: spawn_refresh_thread_def)

lemma schedule_refresh_fetch:
  "workers (schedule_refresh s imm) = workers (if imm then spawn_refresh_thread s else s)
   \<and> refresh_in_progress (schedule_refresh s imm) =
       refresh_in_progress (if imm then spawn_refresh_thread s else s)"
  by (simp add: schedule_refresh_def timeout_add_seconds_def source_remove_def Let_def
      spawn_refresh_thread_def split: option.split)

lemma schedule_refresh_fetch_inv: "fetch_inv s \<Longrightarrow> fetch_inv (schedule_refresh s imm)"
  using spawn_fetch_inv [of s] by (simp add: fetch_inv_def schedule_refresh_fetch)

lemma schedule_refresh_sources:
  "timer_sources (schedule_refresh s imm) =
     filter (\<lambda>src. Some (fst src) \<noteq> refresh_timer_id s) (timer_sources s) @
     [(next_source_id s, refresh_interval s)]
   \<and> refresh_timer_id (schedule_refresh s imm) = Some (next_source_id s)"
  by (simp add: schedule_refresh_def timeout_add_seconds_def source_remove_def Let_def
      spawn_refresh_thread_def split: option.split)

lemma schedule_refresh_timer:
  "timer_inv s \<Longrightarrow>
     timer_sources (schedule_refresh s imm) = [(next_source_id s, refresh_interval s)]
     \<and> refresh_timer_id (schedule_refresh s imm) = Some (next_source_id s)"
  by (cases "timer_sources s")
     (auto simp: timer_inv_def schedule_refresh_def timeout_add_seconds_def source_remove_def
        Let_def spawn_refresh_thread_def split: option.splits)

lemma schedule_refresh_timer_inv: "timer_inv s \<Longrightarrow> timer_inv (schedule_refresh s imm)"
  using schedule_refresh_timer [of s imm] by (simp add: timer_inv_def)

lemma reconfigure_frame:
  "workers (fst (reconfigure B s r)) = workers s
   \<and> refresh_in_progress (fst (reconfigure B s r)) = refresh_in_progress s
   \<and> timer_sources (fst (reconfigure B s r)) = timer_sources s
   \<and> refresh_timer_id (fst (reconfigure B s r)) = refresh_timer_id s"
  by (simp add: reconfigure_def Let_def split: sum.split)

lemma reconfigure_inv:
  "fetch_inv (fst (reconfigure B s r)) = fetch_inv s
   \<and> timer_inv (fst (reconfigure B s r)) = timer_inv s"
  by (simp add: fetch_inv_def timer_inv_def reconfigure_frame)

lemma on_prefs_saved_inv:
  "fetch_inv s \<Longrightarrow> timer_inv s \<Longrightarrow>
   fetch_inv (fst (on_prefs_saved B s r)) \<and> timer_inv (fst (on_prefs_saved B s r))"
  using reconfigure_inv [of B s r]
  by (cases "reconfigure B s r")
     (auto simp: on_prefs_saved_def schedule_refresh_fetch_inv schedule_refresh_timer_inv
        split: option.splits)

lemma fresh_inv: "fetch_inv fresh_indicator \<and> timer_inv fresh_indicator"
  by (simp add: fetch_inv_def timer_inv_def fresh_indicator_def)

lemma indicator_init_inv:
  "indicator_init B r1 r2 = Inr s \<Longrightarrow> fetch_inv s \<and> timer_inv s"
  using reconfigure_inv [of B fresh_indicator r1] fresh_inv
  by (cases "reconfigure B fresh_indicator r1")
     (auto simp: indicator_init_def schedule_refresh_fetch_inv schedule_refresh_timer_inv
        split: option.splits sum.splits json.splits if_splits)

lemma worker_done_inv:
  "fetch_inv s \<Longrightarrow> timer_inv s \<Longrightarrow> 0 < workers s \<Longrightarrow>
   fetch_inv (worker_done s r) \<and> timer_inv (worker_done s r)"
  by (cases r)
     (auto simp: worker_done_def fetch_inv_def timer_inv_def apply_update_frame
        show_notification_def split: if_splits)

lemma reachable_inv: "reachable B s \<Longrightarrow> fetch_inv s \<and> timer_inv s"
proof (induction rule: reachable.induct)
  case (start r1 r2 s)
  then show ?case by (rule indicator_init_inv)
next
  case (refresh_now s)
  then show ?case
    by (simp add: manual_refresh_def schedule_refresh_fetch_inv schedule_refresh_timer_inv)
next
  case (tick s)
  then show ?case
    by (simp add: refresh_timeout_cb_def spawn_fetch_inv timer_inv_def spawn_timer_frame)
next
  case (prefs_saved s r)
  then show ?case by (simp add: on_prefs_saved_inv)
next
  case (fetched s r)
  then show ?case by (simp add: worker_done_inv)
qed

lemma example_started_init:
  "indicator_init example_builtins (Inr example_config) (Inr example_config) = Inr example_started"
  by (simp add: indicator_init_def reconfigure_def example_config_def example_builtins_def
      py_int_def py_or_def dict_get_def py_str_def new_client_def fresh_indicator_def
      schedule_refresh_def spawn_refresh_thread_def timeout_add_seconds_def example_started_def
      Let_def)

text \<open>
  C5. \<^verbatim>\<open>_spawn_refresh_thread\<close> does nothing when \<^verbatim>\<open>_refresh_in_progress\<close> is set, and
  otherwise sets it and starts one worker. A set flag stays set through scheduling,
  manual refresh, a timer tick and saved preferences; \<^verbatim>\<open>_apply_update\<close> clears it. In
  every state the indicator reaches, at most one worker is outstanding, the flag is set
  exactly when one is, and while one is outstanding no step that schedules or ticks
  starts another.
\<close>

theorem single_fetch_in_progress:
  "(refresh_in_progress s \<longrightarrow> spawn_refresh_thread s = s)
   \<and> (\<not> refresh_in_progress s \<longrightarrow>
        spawn_refresh_thread s = s\<lparr>refresh_in_progress := True, workers := Suc (workers s)\<rparr>)
   \<and> (refresh_in_progress s \<longrightarrow>
        refresh_in_progress (schedule_refresh s imm)
        \<and> refresh_in_progress (manual_refresh s)
        \<and> refresh_in_progress (fst (refresh_timeout_cb s))
        \<and> refresh_in_progress (fst (on_prefs_saved B s r)))
   \<and> \<not> refresh_in_progress (apply_update s ds)
   \<and> (reachable B s \<longrightarrow>
        workers s \<le> 1 \<and> refresh_in_progress s = (workers s = 1))
   \<and> (reachable B s \<longrightarrow> 0 < workers s \<longrightarrow>
        workers (manual_refresh s) = workers s
        \<and> workers (fst (refresh_timeout_cb s)) = workers s
        \<and> workers (fst (on_prefs_saved B s r)) = workers s)"
proof -
  have a: "refresh_in_progress s \<longrightarrow> spawn_refresh_thread s = s"
    by (simp add: spawn_refresh_thread_def)
  have b: "\<not> refresh_in_progress s \<longrightarrow>
        spawn_refresh_thread s = s\<lparr>refresh_in_progress := True, workers := Suc (workers s)\<rparr>"
    by (simp add: spawn_refresh_thread_def)
  have keep: "\<And>s' i. refresh_in_progress s' \<Longrightarrow> refresh_in_progress (schedule_refresh s' i)
                  \<and> workers (schedule_refresh s' i) = workers s'"
    by (simp add: schedule_refresh_fetch spawn_refresh_thread_def)
  have prefs: "refresh_in_progress s \<Longrightarrow> refresh_in_progress (fst (on_prefs_saved B s r))
                  \<and> workers (fst (on_prefs_saved B s r)) = workers s"
    using reconfigure_frame [of B s r] keep [of "fst (reconfigure B s r)" True]
    by (cases "reconfigure B s r") (auto simp: on_prefs_saved_def split: option.splits)
  have c: "refresh_in_progress s \<longrightarrow>
        refresh_in_progress (schedule_refresh s imm)
        \<and> refresh_in_progress (manual_refresh s)
        \<and> refresh_in_progress (fst (refresh_timeout_cb s))
        \<and> refresh_in_progress (fst (on_prefs_saved B s r))"
    using keep prefs
    by (simp add: manual_refresh_def refresh_timeout_cb_def spawn_refresh_thread_def)
  have d: "\<not> refresh_in_progress (apply_update s ds)"
    by (simp add: apply_update_frame)
  have e: "reachable B s \<longrightarrow> workers s \<le> 1 \<and> refresh_in_progress s = (workers s = 1)"
    using reachable_inv [of B s] by (auto simp: fetch_inv_def split: if_splits)
  have f: "reachable B s \<longrightarrow> 0 < workers s \<longrightarrow>
        workers (manual_refresh s) = workers s
        \<and> workers (fst (refresh_timeout_cb s)) = workers s
        \<and> workers (fst (on_prefs_saved B s r)) = workers s"
  proof (intro impI)
    assume "reachable B s" and "0 < workers s"
    with e have "refresh_in_progress s" by simp
    with keep prefs show "workers (manual_refresh s) = workers s
        \<and> workers (fst (refresh_timeout_cb s)) = workers s
        \<and> workers (fst (on_prefs_saved B s r)) = workers s"
      by (simp add: manual_refresh_def refresh_timeout_cb_def spawn_refresh_thread_def)
  qed
  from a b c d e f show ?thesis by blast
qed

text \<open>
  The theorem at the indicator just started with a token: its first fetch is outstanding,
  and neither "Refresh now" nor a timer tick starts a second one. Once that fetch has
  delivered its (empty) result no worker is outstanding, and the next spawn starts one.
\<close>

theorem single_fetch_in_progress_witness:
  "reachable example_builtins example_started
   \<and> refresh_in_progress example_started
   \<and> workers example_started = 1
   \<and> spawn_refresh_thread example_started = example_started
   \<and> workers (manual_refresh example_started) = 1
   \<and> workers (fst (refresh_timeout_cb example_started)) = 1
   \<and> reachable example_builtins (worker_done example_started (Inr []))
   \<and> \<not> refresh_in_progress (worker_done example_started (Inr []))
   \<and> workers (worker_done example_started (Inr [])) = 0
   \<and> workers (spawn_refresh_thread (worker_done example_started (Inr []))) = 1"
proof -
  let ?idle = "worker_done example_started (Inr [])"
  have r: "reachable example_builtins example_started"
    using example_started_init by (rule reachable.start)
  have w: "workers example_started = 1" "refresh_in_progress example_started"
    by (simp_all add: example_started_def)
  from r have r': "reachable example_builtins ?idle"
    by (rule reachable.fetched) (simp add: w)
  have idle: "\<not> refresh_in_progress ?idle"
    by (simp add: worker_done_def apply_update_frame)
  note busy_inst = single_fetch_in_progress
         [of example_started True example_builtins "Inr example_config" "[]"]
  note idle_inst = single_fetch_in_progress
         [of ?idle True example_builtins "Inr example_config" "[]"]
  from idle_inst r' idle have w': "workers ?idle = 0"
    by auto
  from idle_inst idle w' have "workers (spawn_refresh_thread ?idle) = 1"
    by simp
  with busy_inst r w r' idle w' show ?thesis by simp
qed

text \<open>
  C6. In every state the indicator reaches at most one timeout source is alive, the one
  \<^verbatim>\<open>_refresh_timer_id\<close> names. \<^verbatim>\<open>_schedule_refresh\<close> removes the source
  \<^verbatim>\<open>_refresh_timer_id\<close> names and registers a new one, with a new id, at the current
  \<^verbatim>\<open>refresh_interval\<close>; from a state with at most that one source this leaves exactly the
  new source. Manual refresh, saved preferences and \<^verbatim>\<open>__init__\<close> keep the invariant, and
  a tick keeps its source (the callback returns \<open>True\<close>).
\<close>

theorem single_refresh_timer:
  "(reachable B s \<longrightarrow>
      length (timer_sources s) \<le> 1
      \<and> map fst (timer_sources s) = (case refresh_timer_id s of None \<Rightarrow> [] | Some i \<Rightarrow> [i]))
   \<and> timer_sources (schedule_refresh s imm) =
       filter (\<lambda>src. Some (fst src) \<noteq> refresh_timer_id s) (timer_sources s) @
       [(next_source_id s, refresh_interval s)]
   \<and> refresh_timer_id (schedule_refresh s imm) = Some (next_source_id s)
   \<and> (timer_inv s \<longrightarrow>
        timer_sources (schedule_refresh s imm) = [(next_source_id s, refresh_interval s)]
        \<and> timer_inv (manual_refresh s)
        \<and> timer_inv (fst (on_prefs_saved B s r)))
   \<and> (indicator_init B r1 r2 = Inr s \<longrightarrow> timer_inv s)
   \<and> timer_sources (fst (refresh_timeout_cb s)) = timer_sources s
   \<and> snd (refresh_timeout_cb s)"
proof -
  have a: "reachable B s \<longrightarrow>
      length (timer_sources s) \<le> 1
      \<and> map fst (timer_sources s) = (case refresh_timer_id s of None \<Rightarrow> [] | Some i \<Rightarrow> [i])"
  proof
    assume "reachable B s"
    then have inv: "timer_inv s" using reachable_inv by blast
    have "length (timer_sources s) = length (map fst (timer_sources s))"
      by simp
    also have "\<dots> \<le> 1"
      using inv unfolding timer_inv_def by (simp only: list.size split: option.split) simp
    finally have "length (timer_sources s) \<le> 1" .
    with inv show "length (timer_sources s) \<le> 1
      \<and> map fst (timer_sources s) = (case refresh_timer_id s of None \<Rightarrow> [] | Some i \<Rightarrow> [i])"
      by (simp add: timer_inv_def)
  qed
  have prefs: "timer_inv s \<Longrightarrow> timer_inv (fst (on_prefs_saved B s r))"
    using reconfigure_inv [of B s r]
    by (cases "reconfigure B s r")
       (auto simp: on_prefs_saved_def schedule_refresh_timer_inv split: option.splits)
  have b: "timer_inv s \<longrightarrow>
        timer_sources (schedule_refresh s imm) = [(next_source_id s, refresh_interval s)]
        \<and> timer_inv (manual_refresh s)
        \<and> timer_inv (fst (on_prefs_saved B s r))"
    using prefs by (simp add: schedule_refresh_timer manual_refresh_def schedule_refresh_timer_inv)
  have c: "indicator_init B r1 r2 = Inr s \<longrightarrow> timer_inv s"
    using indicator_init_inv by blast
  have d: "timer_sources (fst (refresh_timeout_cb s)) = timer_sources s \<and> snd (refresh_timeout_cb s)"
    by (simp add: refresh_timeout_cb_def spawn_timer_frame)
  from a b c d schedule_refresh_sources [of s imm] show ?thesis by blast
qed

text \<open>
  The theorem at the indicator just started with a token: its one timer has id 1 and
  interval 30, and "Refresh now" replaces it by the timer of id 2.
\<close>

theorem single_refresh_timer_witness:
  "reachable example_builtins example_started
   \<and> timer_inv example_started
   \<and> timer_sources example_started = [(1, 30)]
   \<and> timer_sources (manual_refresh example_started) = [(2, 30)]
   \<and> refresh_timer_id (manual_refresh example_started) = Some 2
   \<and> indicator_init example_builtins (Inr example_config) (Inr example_config) = Inr example_started"
proof -
  have r: "reachable example_builtins example_started"
    using example_started_init by (rule reachable.start)
  have v: "timer_sources example_started = [(1, 30)]" "next_source_id example_started = 2"
    "refresh_interval example_started = 30" "refresh_timer_id example_started = Some 1"
    by (simp_all add: example_started_def)
  from single_refresh_timer
         [of example_builtins example_started True "Inr example_config"
             "Inr example_config" "Inr example_config"] r v example_started_init
  show ?thesis by (simp add: manual_refresh_def)
qed

section \<open>Listing deployments\<close>

lemma try_bases_sent_params:
  "req \<in> set (fst (try_bases B http c params limit bases le)) \<Longrightarrow> req_params req = params"
  by (induction bases arbitrary: le)
     (auto simp: make_request_def case_prod_beta split: sum.splits)

lemma try_bases_sent_nonempty:
  "bases \<noteq> [] \<Longrightarrow> fst (try_bases B http c params limit bases le) \<noteq> []"
  by (cases bases) (auto simp: case_prod_beta split: sum.splits)

lemma try_bases_result:
  "snd (try_bases B http c params limit bases le) = Inr ds \<Longrightarrow> bases \<noteq> [] \<Longrightarrow>
     \<exists>req \<in> set (fst (try_bases B http c params limit bases le)).
        try_base B http req limit = Inr ds"
proof (induction bases arbitrary: le)
  case Nil
  then show ?case by simp
next
  case (Cons base bases)
  show ?case
  proof (cases "try_base B http (make_request c params base) limit")
    case (Inr ds')
    with Cons.prems show ?thesis by simp
  next
    case (Inl e)
    show ?thesis
    proof (cases bases)
      case Nil
      with Inl Cons.prems show ?thesis by simp
    next
      case (Cons b bs)
      with Inl Cons.prems Cons.IH [of "Some e"] show ?thesis
        by (auto simp: case_prod_beta)
    qed
  qed
qed

lemma try_base_Inr:
  "try_base B http req limit = Inr ds \<Longrightarrow>
     \<exists>parsed. fetch_parsed B http req = Inr parsed \<and> ds = slice_to (sort_newest_first parsed) limit"
  by (auto simp: try_base_def split: sum.splits)

lemma sort_newest_first_sorted:
  "sorted_wrt (\<lambda>a b. created_at b \<le> created_at a) (sort_newest_first parsed)"
proof -
  have "sorted (map (\<lambda>d. - created_at d) (sort_newest_first parsed))"
    unfolding sort_newest_first_def by (rule sorted_sort_key)
  then show ?thesis by (simp add: sorted_map)
qed

lemma sort_newest_first_mset: "mset (sort_newest_first parsed) = mset parsed"
  by (simp add: sort_newest_first_def)

lemma slice_to_sorted: "sorted_wrt P xs \<Longrightarrow> sorted_wrt P (slice_to xs n)"
  by (simp add: slice_to_def sorted_wrt_take)

text \<open>
  C8 (amended). For every \<open>limit\<close>, every request \<^verbatim>\<open>list_deployments\<close> sends carries the
  \<open>limit\<close> parameter \<open>max 1 (min limit 50)\<close>, which lies in 1 to 50, and at least one
  request is sent. When it returns a list, some request sent was answered with items
  that all parsed, and the list is the slice \<^verbatim>\<open>[:limit]\<close> of the parsed deployments
  sorted by \<open>created_at\<close> in descending order (a permutation of them): for \<open>limit \<ge> 0\<close>
  the first \<open>limit\<close> of them, so at most \<open>limit\<close> items, and none for \<open>limit = 0\<close> although
  one was requested; for \<open>limit < 0\<close> all of them but the last \<open>- limit\<close>.
\<close>

theorem list_deployments_limit:
  assumes "base_url_candidates c \<noteq> []"
  shows "(\<forall>req \<in> set (fst (list_deployments B http c limit)).
            map_of (req_params req) ''limit'' = Some (JInt (max 1 (min limit 50))))
       \<and> 1 \<le> max 1 (min limit 50) \<and> max 1 (min limit 50) \<le> 50
       \<and> fst (list_deployments B http c limit) \<noteq> []
       \<and> (snd (list_deployments B http c limit) = Inr ds \<longrightarrow>
            (\<exists>req \<in> set (fst (list_deployments B http c limit)).
             \<exists>parsed. fetch_parsed B http req = Inr parsed
                \<and> mset (sort_newest_first parsed) = mset parsed
                \<and> sorted_wrt (\<lambda>a b. created_at b \<le> created_at a) (sort_newest_first parsed)
                \<and> ds = slice_to (sort_newest_first parsed) limit
                \<and> (0 \<le> limit \<longrightarrow> ds = take (nat limit) (sort_newest_first parsed)
                                  \<and> int (length ds) \<le> limit)
                \<and> (limit = 0 \<longrightarrow> ds = [])
                \<and> (limit < 0 \<longrightarrow>
                      ds = take (length parsed - nat (- limit)) (sort_newest_first parsed)
                      \<and> length ds = length parsed - nat (- limit)))
            \<and> sorted_wrt (\<lambda>a b. created_at b \<le> created_at a) ds)"
proof -
  let ?run = "list_deployments B http c limit"
  have params: "\<forall>req \<in> set (fst ?run).
            map_of (req_params req) ''limit'' = Some (JInt (max 1 (min limit 50)))"
  proof
    fix req assume "req \<in> set (fst ?run)"
    then have "req_params req = request_params c limit"
      unfolding list_deployments_def by (rule try_bases_sent_params)
    then show "map_of (req_params req) ''limit'' = Some (JInt (max 1 (min limit 50)))"
      by (simp add: request_params_def)
  qed
  have range: "1 \<le> max 1 (min limit 50) \<and> max 1 (min limit 50) \<le> 50"
    by simp
  have sent: "fst ?run \<noteq> []"
    unfolding list_deployments_def using assms by (rule try_bases_sent_nonempty)
  have res: "snd ?run = Inr ds \<longrightarrow>
            (\<exists>req \<in> set (fst ?run).
             \<exists>parsed. fetch_parsed B http req = Inr parsed
                \<and> mset (sort_newest_first parsed) = mset parsed
                \<and> sorted_wrt (\<lambda>a b. created_at b \<le> created_at a) (sort_newest_first parsed)
                \<and> ds = slice_to (sort_newest_first parsed) limit
                \<and> (0 \<le> limit \<longrightarrow> ds = take (nat limit) (sort_newest_first parsed)
                                  \<and> int (length ds) \<le> limit)
                \<and> (limit = 0 \<longrightarrow> ds = [])
                \<and> (limit < 0 \<longrightarrow>
                      ds = take (length parsed - nat (- limit)) (sort_newest_first parsed)
                      \<and> length ds = length parsed - nat (- limit)))
            \<and> sorted_wrt (\<lambda>a b. created_at b \<le> created_at a) ds"
  proof
    assume "snd ?run = Inr ds"
    then obtain req where req: "req \<in> set (fst ?run)" "try_base B http req limit = Inr ds"
      unfolding list_deployments_def using try_bases_result [OF _ assms] by blast
    from req(2) obtain parsed where parsed: "fetch_parsed B http req = Inr parsed"
      and ds: "ds = slice_to (sort_newest_first parsed) limit"
      using try_base_Inr by blast
    have len: "length (sort_newest_first parsed) = length parsed"
      using sort_newest_first_mset [of parsed] by (metis size_mset)
    have nonneg: "0 \<le> limit \<longrightarrow> ds = take (nat limit) (sort_newest_first parsed)
                                  \<and> int (length ds) \<le> limit"
      by (auto simp: ds slice_to_def)
    have zero: "limit = 0 \<longrightarrow> ds = []"
      by (simp add: ds slice_to_def)
    have neg: "limit < 0 \<longrightarrow>
                 ds = take (length parsed - nat (- limit)) (sort_newest_first parsed)
                 \<and> length ds = length parsed - nat (- limit)"
      by (simp add: ds slice_to_def len)
    have srt: "sorted_wrt (\<lambda>a b. created_at b \<le> created_at a) ds"
      unfolding ds by (rule slice_to_sorted [OF sort_newest_first_sorted])
    from req(1) parsed ds nonneg zero neg srt sort_newest_first_mset [of parsed]
      sort_newest_first_sorted [of parsed]
    show "(\<exists>req \<in> set (fst ?run).
             \<exists>parsed. fetch_parsed B http req = Inr parsed
                \<and> mset (sort_newest_first parsed) = mset parsed
                \<and> sorted_wrt (\<lambda>a b. created_at b \<le> created_at a) (sort_newest_first parsed)
                \<and> ds = slice_to (sort_newest_first parsed) limit
                \<and> (0 \<le> limit \<longrightarrow> ds = take (nat limit) (sort_newest_first parsed)
                                  \<and> int (length ds) \<le> limit)
                \<and> (limit = 0 \<longrightarrow> ds = [])
                \<and> (limit < 0 \<longrightarrow>
                      ds = take (length parsed - nat (- limit)) (sort_newest_first parsed)
                      \<and> length ds = length parsed - nat (- limit)))
            \<and> sorted_wrt (\<lambda>a b. created_at b \<le> created_at a) ds"
      by blast
  qed
  from params range sent res show ?thesis by blast
qed

lemma example_run:
  "list_deployments example_builtins example_http (vercel_client example_started) limit =
     ([\<lparr> req_url = ''https://api.vercel.com/v13/deployments'',
          req_headers = [(''Authorization'', ''Bearer tok'')],
          req_params = [(''limit'', JInt (max 1 (min limit 50)))],
          req_timeout = 10 \<rparr>],
      Inr (slice_to
        [\<lparr> dep_id = ''b'', name = ''(unknown)'', url = [], status = ''unknown'',
            created_at = 2000000, branch = [], commit_sha = [], commit_message = [],
            author = [], target = [] \<rparr>,
         \<lparr> dep_id = ''a'', name = ''(unknown)'', url = [], status = ''unknown'',
            created_at = 1000000, branch = [], commit_sha = [], commit_message = [],
            author = [], target = [] \<rparr>] limit))"
proof -
  have pa: "parse_deployment example_builtins t
              (JObj [(''uid'', JStr ''a''), (''createdAt'', JInt 1000)]) =
            Inr \<lparr> dep_id = ''a'', name = ''(unknown)'', url = [], status = ''unknown'',
                  created_at = 1000000, branch = [], commit_sha = [], commit_message = [],
                  author = [], target = [] \<rparr>" for t
    by (simp add: parse_deployment_def parse_name_def parse_created_at_def parse_status_def
        extract_git_meta_def ready_state_raw_def py_or_def dict_get_def py_str_def py_int_def
        example_builtins_def status_map_get_def status_map_def str_lower_def Let_def)
  have pb: "parse_deployment example_builtins t
              (JObj [(''uid'', JStr ''b''), (''createdAt'', JInt 2000)]) =
            Inr \<lparr> dep_id = ''b'', name = ''(unknown)'', url = [], status = ''unknown'',
                  created_at = 2000000, branch = [], commit_sha = [], commit_message = [],
                  author = [], target = [] \<rparr>" for t
    by (simp add: parse_deployment_def parse_name_def parse_created_at_def parse_status_def
        extract_git_meta_def ready_state_raw_def py_or_def dict_get_def py_str_def py_int_def
        example_builtins_def status_map_get_def status_map_def str_lower_def Let_def)
  have fetched: "fetch_parsed example_builtins example_http req =
      Inr [\<lparr> dep_id = ''a'', name = ''(unknown)'', url = [], status = ''unknown'',
              created_at = 1000000, branch = [], commit_sha = [], commit_message = [],
              author = [], target = [] \<rparr>,
           \<lparr> dep_id = ''b'', name = ''(unknown)'', url = [], status = ''unknown'',
              created_at = 2000000, branch = [], commit_sha = [], commit_message = [],
              author = [], target = [] \<rparr>]" for req
    by (simp add: fetch_parsed_def example_http_def py_or_def dict_get_def iter_items_def pa pb)
  show ?thesis
    by (simp add: list_deployments_def try_base_def fetched sort_newest_first_def
        make_request_def headers_def request_params_def example_started_def)
qed

text \<open>
  The theorem at a transport that answers with the deployments \<open>a\<close> (older) and \<open>b\<close>
  (newer), for \<open>limit = 1\<close>, \<open>limit = 0\<close> and \<open>limit = -2\<close>: the first two runs ask for
  one item; the first returns \<open>b\<close>, the second nothing, and the third drops both items.
\<close>

theorem list_deployments_limit_witness:
  "base_url_candidates (vercel_client example_started) \<noteq> []
   \<and> map (\<lambda>req. map_of (req_params req) ''limit'')
        (fst (list_deployments example_builtins example_http (vercel_client example_started) 1))
       = [Some (JInt 1)]
   \<and> map (\<lambda>req. map_of (req_params req) ''limit'')
        (fst (list_deployments example_builtins example_http (vercel_client example_started) 0))
       = [Some (JInt 1)]
   \<and> snd (list_deployments example_builtins example_http (vercel_client example_started) 1)
       = Inr [\<lparr> dep_id = ''b'', name = ''(unknown)'', url = [], status = ''unknown'',
                 created_at = 2000000, branch = [], commit_sha = [], commit_message = [],
                 author = [], target = [] \<rparr>]
   \<and> snd (list_deployments example_builtins example_http (vercel_client example_started) 0)
       = Inr []
   \<and> snd (list_deployments example_builtins example_http (vercel_client example_started) (- 2))
       = Inr []"
proof -
  let ?b = "\<lparr> dep_id = ''b'', name = ''(unknown)'', url = [], status = ''unknown'',
               created_at = 2000000, branch = [], commit_sha = [], commit_message = [],
               author = [], target = [] \<rparr>"
  have h: "base_url_candidates (vercel_client example_started) \<noteq> []"
    by (simp add: example_started_def)
  have one: "snd (list_deployments example_builtins example_http
                    (vercel_client example_started) 1) = Inr [?b]"
    by (simp add: example_run slice_to_def)
  have none: "snd (list_deployments example_builtins example_http
                    (vercel_client example_started) 0) = Inr []"
    by (simp add: example_run slice_to_def)
  have less: "snd (list_deployments example_builtins example_http
                    (vercel_client example_started) (- 2)) = Inr []"
    by (simp add: example_run slice_to_def)
  from list_deployments_limit [OF h, of example_builtins example_http 1 "[?b]"]
       list_deployments_limit [OF h, of example_builtins example_http 0 "[]"]
       list_deployments_limit [OF h, of example_builtins example_http "- 2" "[]"]
  show ?thesis
    using h one none less by (simp add: example_run)
qed

text \<open>
  C8 as stated fails at \<open>limit = -1\<close>: the request asks for one item, the response holds
  two, and the slice \<^verbatim>\<open>[:-1]\<close> returns one deployment, which is not at most \<open>-1\<close> items.
\<close>

theorem list_deployments_limit_counterexample:
  "(case snd (list_deployments example_builtins example_http (vercel_client example_started) (- 1))
    of Inl e \<Rightarrow> False
     | Inr ds \<Rightarrow> map dep_id ds = [''b''] \<and> \<not> int (length ds) \<le> - 1)"
  by (simp add: example_run slice_to_def)

section \<open>Loading the configuration\<close>

lemma map_of_setdefault:
  "map_of (setdefault data kv) k =
     (case map_of data k of Some v \<Rightarrow> Some v | None \<Rightarrow> if k = fst kv then Some (snd kv) else None)"
  by (cases kv) (auto simp: setdefault_def map_add_def split: option.splits)

lemma map_of_foldl_setdefault:
  "map_of (foldl setdefault data defaults) k =
     (case map_of data k of Some v \<Rightarrow> Some v | None \<Rightarrow> map_of defaults k)"
proof (induction defaults arbitrary: data)
  case Nil
  then show ?case by (simp split: option.split)
next
  case (Cons kv defaults)
  show ?case
    by (cases kv) (auto simp: Cons.IH map_of_setdefault split: option.splits)
qed

lemma load_config_cases:
  "config_dir_error E = None \<Longrightarrow> path_exists E = Inr b \<Longrightarrow>
     load_config E =
       Inr (case parsed_config E of
              None \<Rightarrow> config_defaults
            | Some data \<Rightarrow> foldl setdefault data config_defaults)"
  by (cases b)
     (auto simp: load_config_def parsed_config_def split: sum.splits json.splits)

text \<open>
  C10 (amended). \<^verbatim>\<open>load_config\<close> raises exactly when \<^verbatim>\<open>_config_dir\<close> or \<^verbatim>\<open>p.exists()\<close>
  raises, both called before the \<^verbatim>\<open>try\<close> (the configuration directory cannot be
  created, say). Otherwise it returns a dictionary that holds all five configuration
  keys: the defaults when the file is missing, cannot be read or parsed, or does not
  parse to an object; and when the file parses to an object, that object's value for
  every key it has and the default for every other key.
\<close>

theorem load_config_total:
  "(config_dir_error E = Some e \<longrightarrow> load_config E = Inl e)
   \<and> (config_dir_error E = None \<longrightarrow> path_exists E = Inl e \<longrightarrow> load_config E = Inl e)
   \<and> (config_dir_error E = None \<longrightarrow> path_exists E = Inr b \<longrightarrow>
        (\<exists>cfg. load_config E = Inr cfg
           \<and> (\<forall>k \<in> {''token'', ''team_id'', ''refresh_interval'', ''max_items'',
                     ''notify_prod_events''}. map_of cfg k \<noteq> None)
           \<and> (parsed_config E = None \<longrightarrow> cfg = config_defaults)
           \<and> (\<forall>data. parsed_config E = Some data \<longrightarrow>
                 (\<forall>k. map_of cfg k =
                    (case map_of data k of
                       Some v \<Rightarrow> Some v
                     | None \<Rightarrow> map_of config_defaults k)))))"
proof -
  have a: "config_dir_error E = Some e \<longrightarrow> load_config E = Inl e"
    by (simp add: load_config_def)
  have b: "config_dir_error E = None \<longrightarrow> path_exists E = Inl e \<longrightarrow> load_config E = Inl e"
    by (simp add: load_config_def)
  have c: "config_dir_error E = None \<longrightarrow> path_exists E = Inr b \<longrightarrow>
        (\<exists>cfg. load_config E = Inr cfg
           \<and> (\<forall>k \<in> {''token'', ''team_id'', ''refresh_interval'', ''max_items'',
                     ''notify_prod_events''}. map_of cfg k \<noteq> None)
           \<and> (parsed_config E = None \<longrightarrow> cfg = config_defaults)
           \<and> (\<forall>data. parsed_config E = Some data \<longrightarrow>
                 (\<forall>k. map_of cfg k =
                    (case map_of data k of
                       Some v \<Rightarrow> Some v
                     | None \<Rightarrow> map_of config_defaults k))))"
  proof (intro impI)
    assume h: "config_dir_error E = None" "path_exists E = Inr b"
    let ?cfg = "case parsed_config E of
                  None \<Rightarrow> config_defaults
                | Some data \<Rightarrow> foldl setdefault data config_defaults"
    have r: "load_config E = Inr ?cfg"
      using h by (rule load_config_cases)
    have look: "map_of ?cfg k =
                  (case parsed_config E of
                     None \<Rightarrow> map_of config_defaults k
                   | Some data \<Rightarrow>
                       (case map_of data k of
                          Some v \<Rightarrow> Some v
                        | None \<Rightarrow> map_of config_defaults k))" for k
      by (simp add: map_of_foldl_setdefault split: option.split)
    have keys: "\<forall>k \<in> {''token'', ''team_id'', ''refresh_interval'', ''max_items'',
                     ''notify_prod_events''}. map_of ?cfg k \<noteq> None"
      unfolding look by (auto simp: config_defaults_def split: option.splits)
    have d: "parsed_config E = None \<longrightarrow> ?cfg = config_defaults"
      by simp
    have f: "\<forall>data. parsed_config E = Some data \<longrightarrow>
                 (\<forall>k. map_of ?cfg k =
                    (case map_of data k of
                       Some v \<Rightarrow> Some v
                     | None \<Rightarrow> map_of config_defaults k))"
      by (simp add: map_of_foldl_setdefault)
    from r keys d f
    show "\<exists>cfg. load_config E = Inr cfg
           \<and> (\<forall>k \<in> {''token'', ''team_id'', ''refresh_interval'', ''max_items'',
                     ''notify_prod_events''}. map_of cfg k \<noteq> None)
           \<and> (parsed_config E = None \<longrightarrow> cfg = config_defaults)
           \<and> (\<forall>data. parsed_config E = Some data \<longrightarrow>
                 (\<forall>k. map_of cfg k =
                    (case map_of data k of
                       Some v \<Rightarrow> Some v
                     | None \<Rightarrow> map_of config_defaults k)))"
      by - (rule exI [of _ ?cfg], (intro conjI; assumption))
  qed
  from a b c show ?thesis by blast
qed

text \<open>
  The theorem at a configuration file that holds a token and the unknown key \<open>theme\<close>:
  both are kept, and the four other configuration keys get their defaults. Without the
  file the defaults are returned; when the directory or the test for the file raises,
  \<^verbatim>\<open>load_config\<close> raises.
\<close>

theorem load_config_total_witness:
  "config_dir_error example_env_file = None
   \<and> path_exists example_env_file = Inr True
   \<and> parsed_config example_env_file = Some [(''token'', JStr ''tok''), (''theme'', JStr ''dark'')]
   \<and> load_config example_env_file =
       Inr [(''token'', JStr ''tok''), (''theme'', JStr ''dark''), (''team_id'', JStr []),
            (''refresh_interval'', JInt 30), (''max_items'', JInt 10),
            (''notify_prod_events'', JBool True)]
   \<and> load_config (example_env_file\<lparr>path_exists := Inr False\<rparr>) = Inr config_defaults
   \<and> load_config (example_env_file\<lparr>config_dir_error := Some OSError\<rparr>) = Inl OSError
   \<and> load_config (example_env_file\<lparr>path_exists := Inl OSError\<rparr>) = Inl OSError"
proof -
  let ?missing = "example_env_file\<lparr>path_exists := Inr False\<rparr>"
  let ?no_dir = "example_env_file\<lparr>config_dir_error := Some OSError\<rparr>"
  let ?no_stat = "example_env_file\<lparr>path_exists := Inl OSError\<rparr>"
  have h: "config_dir_error example_env_file = None" "path_exists example_env_file = Inr True"
    by (simp_all add: example_env_file_def)
  have p: "parsed_config example_env_file = Some [(''token'', JStr ''tok''), (''theme'', JStr ''dark'')]"
    by (simp add: parsed_config_def example_env_file_def)
  have v: "load_config example_env_file =
       Inr [(''token'', JStr ''tok''), (''theme'', JStr ''dark''), (''team_id'', JStr []),
            (''refresh_interval'', JInt 30), (''max_items'', JInt 10),
            (''notify_prod_events'', JBool True)]"
    by (simp add: load_config_def example_env_file_def config_defaults_def setdefault_def)
  have m: "config_dir_error ?missing = None" "path_exists ?missing = Inr False"
    "parsed_config ?missing = None"
    by (simp_all add: example_env_file_def parsed_config_def)
  from load_config_total [of ?missing OSError False] m
  have d: "load_config ?missing = Inr config_defaults"
    by auto
  from load_config_total [of ?no_dir OSError True]
  have e1: "load_config ?no_dir = Inl OSError"
    by simp
  from load_config_total [of ?no_stat OSError True] h
  have e2: "load_config ?no_stat = Inl OSError"
    by simp
  from load_config_total [of example_env_file OSError True] h p v d e1 e2
  show ?thesis by simp
qed

text \<open>
  C10 as stated fails where the configuration directory cannot be created: \<^verbatim>\<open>mkdir\<close>
  raises PermissionError in \<^verbatim>\<open>_config_dir\<close>, outside the \<^verbatim>\<open>try\<close>, and \<^verbatim>\<open>load_config\<close>
  raises it.
\<close>

theorem load_config_total_counterexample:
  "load_config example_env_no_dir = Inl PermissionError"
  by (simp add: load_config_def example_env_no_dir_def)

end
